theory Spec2Isabelle
  imports Main
begin

section \<open>The authentication gate of the API (api/auth.go)\<close>

text \<open>
  The three functions of \<^verbatim>\<open>api/auth.go\<close> are embedded as pure functions:
  \<^verbatim>\<open>extractBearerToken\<close>, \<^verbatim>\<open>parseJWTClaims\<close> and \<^verbatim>\<open>requireAdmin\<close>, with
  \<^verbatim>\<open>requireAuthentication\<close> composing the first two. A Go result \<^verbatim>\<open>(value, error)\<close>
  is a sum, the error on the left. What the file calls but does not define (user storage,
  the audience default, the membership check, the JSON decoder) is a field of the record
  \<open>API\<close>, so every theorem holds for all collaborators.
\<close>

subsection \<open>Errors\<close>

text \<open>An error value of a collaborator or of a library, by its text.\<close>

type_synonym go_error = string

text \<open>
  Modelled from the spec: the constructors \<^verbatim>\<open>unauthorizedError\<close>, \<^verbatim>\<open>badRequestError\<close>,
  \<^verbatim>\<open>internalServerError\<close> and the method \<^verbatim>\<open>WithInternalError\<close> are defined outside
  \<^verbatim>\<open>auth.go\<close>. The spec (section 7) names three error kinds; an error carries its kind,
  the format string and arguments it was made from, and the internal cause kept for
  operators.
\<close>

datatype ErrorKind = Unauthenticated | BadRequest | InternalError

record HTTPError =
  Kind :: ErrorKind
  Message :: string
  Args :: "go_error list"
  Internal :: "go_error option"

definition unauthorizedError :: "string \<Rightarrow> go_error list \<Rightarrow> HTTPError" where
  "unauthorizedError fmtString args =
     \<lparr>Kind = Unauthenticated, Message = fmtString, Args = args, Internal = None\<rparr>"

definition badRequestError :: "string \<Rightarrow> go_error list \<Rightarrow> HTTPError" where
  "badRequestError fmtString args =
     \<lparr>Kind = BadRequest, Message = fmtString, Args = args, Internal = None\<rparr>"

definition internalServerError :: "string \<Rightarrow> go_error list \<Rightarrow> HTTPError" where
  "internalServerError fmtString args =
     \<lparr>Kind = InternalError, Message = fmtString, Args = args, Internal = None\<rparr>"

definition WithInternalError :: "HTTPError \<Rightarrow> go_error \<Rightarrow> HTTPError" where
  "WithInternalError e err = e\<lparr>Internal := Some err\<rparr>"

text \<open>A result fails with a given kind.\<close>

definition fails_with :: "ErrorKind \<Rightarrow> HTTPError + 'a \<Rightarrow> bool" where
  "fails_with k res = (case res of Inl e \<Rightarrow> Kind e = k | Inr _ \<Rightarrow> False)"

subsection \<open>Tokens, claims and the request context\<close>

text \<open>
  Modelled from the spec: the type \<^verbatim>\<open>GoTrueClaims\<close> is declared outside \<^verbatim>\<open>auth.go\<close>.
  Section 3 gives the claims a subject, an audience and the two timestamps; a timestamp
  that the credential does not carry is \<open>None\<close>. Times are Unix seconds.
\<close>

record GoTrueClaims =
  Subject :: string
  Audience :: string
  ExpiresAt :: "int option"
  IssuedAt :: "int option"

text \<open>
  Modelled from the spec: signing belongs to the jwt-go package, whose code is not among
  the sources. Section 4.2 has the signature verified against one secret; signatures are
  symbolic here: a tag records the algorithm, the key and the text it was computed from,
  so tags made under different keys are different values, and bytes that were not
  produced by signing match no tag.
\<close>

datatype mac = HMAC string string string | Bytes string

text \<open>
  Modelled from the spec: \<^verbatim>\<open>jwt.Token\<close>, a type of the same package, is the decoded
  credential of section 3: the credential as given, the algorithm its header declares (if
  it declares one), its claims, the text the signature covers, the signature, and the
  flag the parser sets on success.
\<close>

record Token =
  Raw :: string
  Alg :: "string option"
  Claims :: GoTrueClaims
  SigningString :: string
  Signature :: mac
  Valid :: bool

record JWTConfiguration =
  Secret :: string

record Configuration =
  JWT :: JWTConfiguration

text \<open>
  Modelled from the spec: \<^verbatim>\<open>getConfig\<close> and \<^verbatim>\<open>withToken\<close> are defined outside
  \<^verbatim>\<open>auth.go\<close>. By sections 3 and 6 a context yields the configuration with the signing
  secret, and the authenticated context is the original context together with the
  verified token.
\<close>

record Context =
  Config :: Configuration
  VerifiedToken :: "Token option"

definition getConfig :: "Context \<Rightarrow> Configuration" where
  "getConfig ctx = Config ctx"

definition withToken :: "Context \<Rightarrow> Token \<Rightarrow> Context" where
  "withToken ctx token = ctx\<lparr>VerifiedToken := Some token\<rparr>"

subsection \<open>Requests\<close>

text \<open>
  \<^verbatim>\<open>http.Request\<close>, as far as \<^verbatim>\<open>auth.go\<close> reads it. \<open>Body\<close> is \<open>None\<close> for a nil
  body, \<open>Some NoBody\<close> for \<^verbatim>\<open>http.NoBody\<close>, and a reader otherwise. \<open>GetBody\<close> is a
  field of function type: \<open>None\<close> is the nil function, otherwise the call returns an
  error or a fresh stream, given by its bytes.
\<close>

datatype ReadCloser = NoBody | Reader string

record Request =
  Header :: "string \<rightharpoonup> string list"
  Body :: "ReadCloser option"
  GetBody :: "(go_error + string) option"
  RequestContext :: Context

text \<open>\<^verbatim>\<open>Header.Get\<close>: the first value stored under the key, the empty string when there is none.\<close>

definition Header_Get :: "(string \<rightharpoonup> string list) \<Rightarrow> string \<Rightarrow> string" where
  "Header_Get h key = (case h key of None \<Rightarrow> [] | Some [] \<Rightarrow> [] | Some (v # _) \<Rightarrow> v)"

subsection \<open>Collaborators\<close>

text \<open>The body shape of an admin request, \<^verbatim>\<open>adminCheckParams\<close> (auth.go, lines 21 to 25).\<close>

record adminCheckParams_User =
  Aud :: string

record adminCheckParams =
  User :: adminCheckParams_User

text \<open>The administrative user that storage returns; only its identity matters here.\<close>

record models_User =
  ID :: string

text \<open>
  What \<^verbatim>\<open>auth.go\<close> calls and does not define, as parameters:
  \<^item> \<open>getUser\<close>: \<^verbatim>\<open>getUser(ctx, api.db)\<close>, the lookup of the current administrative user;
  \<^item> \<open>requestAud\<close>: \<^verbatim>\<open>api.requestAud(ctx, r)\<close>, the default audience of the request;
  \<^item> \<open>isAdmin\<close>: \<^verbatim>\<open>api.isAdmin(ctx, user, aud)\<close>, the membership check;
  \<^item> \<open>jsonDecode\<close>: \<^verbatim>\<open>json.NewDecoder(bod).Decode(&params)\<close> on a zero \<^verbatim>\<open>params\<close>:
    the decoder's error, or the parameters it filled in;
  \<^item> \<open>jwtDecode\<close>: the splitting and decoding of a credential into a token (its header's
    algorithm, claims, signed text and signature), or the reason it is malformed;
  \<^item> \<open>TimeFunc\<close>: the time of verification.
\<close>

record API =
  getUser :: "Context \<Rightarrow> go_error + models_User"
  requestAud :: "Context \<Rightarrow> Request \<Rightarrow> string"
  isAdmin :: "Context \<Rightarrow> models_User \<Rightarrow> string \<Rightarrow> bool"
  jsonDecode :: "string \<Rightarrow> go_error + adminCheckParams"
  jwtDecode :: "string \<Rightarrow> go_error + Token"
  TimeFunc :: int

subsection \<open>requireAdmin\<close>

text \<open>
  \<^verbatim>\<open>requireAdmin\<close> (auth.go, lines 27 to 55). The result is \<open>None\<close> when the call does
  not return: with a body present, line 37 calls \<^verbatim>\<open>r.GetBody\<close>, and calling a nil
  function panics. The inner \<open>case\<close> is the block of lines 35 to 48, which either returns
  early with an error or leaves the audience for line 51.
\<close>

definition requireAdmin :: "API \<Rightarrow> Context \<Rightarrow> Request \<Rightarrow> (HTTPError + Context) option" where
  "requireAdmin api ctx r =
     (case getUser api ctx of
        Inl err \<Rightarrow> Some (Inl (unauthorizedError ''Invalid admin user'' []))
      | Inr adminUser \<Rightarrow>
          (let aud = requestAud api ctx r in
           case (if Body r \<noteq> None \<and> Body r \<noteq> Some NoBody then
                   (case GetBody r of
                      None \<Rightarrow> None
                    | Some (Inl err) \<Rightarrow>
                        Some (Inl (WithInternalError (internalServerError ''Error getting body'' []) err))
                    | Some (Inr bod) \<Rightarrow>
                        (case jsonDecode api bod of
                           Inl err \<Rightarrow>
                             Some (Inl (badRequestError ''Could not decode admin user params: %v'' [err]))
                         | Inr params \<Rightarrow>
                             Some (Inr (if Aud (User params) \<noteq> [] then Aud (User params) else aud))))
                 else Some (Inr aud)) of
             None \<Rightarrow> None
           | Some (Inl e) \<Rightarrow> Some (Inl e)
           | Some (Inr aud') \<Rightarrow>
               if \<not> isAdmin api ctx adminUser aud'
               then Some (Inl (unauthorizedError ''User not allowed'' []))
               else Some (Inr ctx)))"

subsection \<open>The outcome of the membership check\<close>

text \<open>
  What \<open>requireAdmin\<close> returns once the audience it hands to the membership check is
  \<open>aud\<close>: the lookup of lines 29 to 32 followed by the check of lines 51 to 54. The
  properties below say which audience that is by equating \<open>requireAdmin\<close> with
  \<open>admin_check\<close> at that audience, for every membership check \<open>isAdmin\<close>.
\<close>

definition admin_check :: "API \<Rightarrow> Context \<Rightarrow> string \<Rightarrow> (HTTPError + Context) option" where
  "admin_check api ctx aud =
     (case getUser api ctx of
        Inl err \<Rightarrow> Some (Inl (unauthorizedError ''Invalid admin user'' []))
      | Inr adminUser \<Rightarrow>
          if \<not> isAdmin api ctx adminUser aud
          then Some (Inl (unauthorizedError ''User not allowed'' []))
          else Some (Inr ctx))"

subsection \<open>extractBearerToken\<close>

text \<open>
  Modelled from the spec: \<^verbatim>\<open>bearerRegexp\<close> is a package variable declared outside
  \<^verbatim>\<open>auth.go\<close>. By section 4.1 it is the pattern \<^verbatim>\<open>Bearer <token>\<close>: the scheme keyword
  in exactly this case, a single space, and a non-empty token as the one capture; any
  other spacing is malformed, so the token holds no white space. \<open>FindStringSubmatch\<close>
  returns the whole match followed by the capture, and the empty slice when the header
  does not match.
\<close>

definition isSpace :: "char \<Rightarrow> bool" where
  "isSpace c = (c = CHR '' '' \<or> c = CHR 0x09 \<or> c = CHR 0x0A \<or> c = CHR 0x0C \<or> c = CHR 0x0D)"

definition bearerRegexp_FindStringSubmatch :: "string \<Rightarrow> string list" where
  "bearerRegexp_FindStringSubmatch s =
     (let token = drop 7 s in
      if take 7 s = ''Bearer '' \<and> token \<noteq> [] \<and> \<not> list_ex isSpace token
      then [s, token] else [])"

text \<open>\<^verbatim>\<open>extractBearerToken\<close> (auth.go, lines 57 to 69).\<close>

definition extractBearerToken :: "Request \<Rightarrow> HTTPError + string" where
  "extractBearerToken r =
     (let authHeader = Header_Get (Header r) ''Authorization'' in
      if authHeader = []
      then Inl (unauthorizedError ''This endpoint requires a Bearer token'' [])
      else
        let matches = bearerRegexp_FindStringSubmatch authHeader in
        if length matches \<noteq> 2
        then Inl (unauthorizedError ''This endpoint requires a Bearer token'' [])
        else Inr (matches ! 1))"

text \<open>
  The shape section 4.1 asks of the header, with the token it captures: the keyword
  \<^verbatim>\<open>Bearer\<close>, one space, and a non-empty token without white space.
\<close>

definition Bearer_shape :: "string \<Rightarrow> string \<Rightarrow> bool" where
  "Bearer_shape authHeader token =
     (authHeader = ''Bearer '' @ token \<and> token \<noteq> [] \<and> \<not> list_ex isSpace token)"

subsection \<open>parseJWTClaims\<close>

text \<open>\<^verbatim>\<open>jwt.Parser\<close> with the one field the code sets, and the name of the HS256 method.\<close>

record Parser =
  ValidMethods :: "string list"

definition SigningMethodHS256_Name :: string where
  "SigningMethodHS256_Name = ''HS256''"

text \<open>
  Modelled from the spec: \<^verbatim>\<open>Parser.ParseWithClaims\<close> belongs to the jwt-go package,
  whose code is not among the sources. Section 4.2 gives its contract, in this order: a
  credential that does not decode is malformed; the algorithm its header declares must be
  one of the parser's valid methods; the signature must be the one made with the key the
  key function returns; the claims are rejected if \<open>expiresAt\<close> has passed (no clock
  skew) and if \<open>issuedAt\<close> is missing. On success the token is marked valid.
\<close>

definition ParseWithClaims ::
  "API \<Rightarrow> Parser \<Rightarrow> string \<Rightarrow> (Token \<Rightarrow> go_error + string) \<Rightarrow> go_error + Token" where
  "ParseWithClaims api p tokenString keyFunc =
     (case jwtDecode api tokenString of
        Inl err \<Rightarrow> Inl err
      | Inr token \<Rightarrow>
          (case Alg token of
             None \<Rightarrow> Inl ''signing method (alg) is unspecified''
           | Some alg \<Rightarrow>
               if alg \<notin> set (ValidMethods p) then Inl ''signing method is invalid''
               else
                 (case keyFunc token of
                    Inl err \<Rightarrow> Inl err
                  | Inr key \<Rightarrow>
                      if Signature token \<noteq> HMAC alg key (SigningString token)
                      then Inl ''signature is invalid''
                      else if (case ExpiresAt (Claims token) of
                                 Some exp \<Rightarrow> exp < TimeFunc api
                               | None \<Rightarrow> False)
                      then Inl ''token is expired''
                      else if IssuedAt (Claims token) = None
                      then Inl ''token has no issue time''
                      else Inr (token\<lparr>Valid := True\<rparr>))))"

text \<open>\<^verbatim>\<open>parseJWTClaims\<close> (auth.go, lines 71 to 84).\<close>

definition parseJWTClaims :: "API \<Rightarrow> string \<Rightarrow> Request \<Rightarrow> HTTPError + Context" where
  "parseJWTClaims api bearer r =
     (let ctx = RequestContext r;
          config = getConfig ctx;
          p = \<lparr>ValidMethods = [SigningMethodHS256_Name]\<rparr>
      in case ParseWithClaims api p bearer (\<lambda>token. Inr (Secret (JWT config))) of
           Inl err \<Rightarrow> Inl (unauthorizedError ''Invalid token: %v'' [err])
         | Inr token \<Rightarrow> Inr (withToken ctx token))"

text \<open>\<^verbatim>\<open>requireAuthentication\<close> (auth.go, lines 12 to 19).\<close>

definition requireAuthentication :: "API \<Rightarrow> Request \<Rightarrow> HTTPError + Context" where
  "requireAuthentication api r =
     (case extractBearerToken r of
        Inl err \<Rightarrow> Inl err
      | Inr token \<Rightarrow> parseJWTClaims api token r)"

subsection \<open>Sample values\<close>

text \<open>Concrete collaborators, requests and tokens on which the properties are exercised.\<close>

definition sample_ctx :: Context where
  "sample_ctx = \<lparr>Config = \<lparr>JWT = \<lparr>Secret = ''s3cret''\<rparr>\<rparr>, VerifiedToken = None\<rparr>"

definition override_body :: string where
  \<open>override_body = ''{"user":{"aud":"tenantB"}}''\<close>

definition sample_api :: API where
  "sample_api =
     \<lparr>getUser = (\<lambda>ctx. Inr \<lparr>ID = ''admin''\<rparr>),
      requestAud = (\<lambda>ctx r. ''tenantA''),
      isAdmin = (\<lambda>ctx u aud. aud = ''tenantB''),
      jsonDecode = (\<lambda>bod. if bod = override_body then Inr \<lparr>User = \<lparr>Aud = ''tenantB''\<rparr>\<rparr>
                           else if bod = ''{}'' then Inr \<lparr>User = \<lparr>Aud = []\<rparr>\<rparr>
                           else Inl ''invalid character''),
      jwtDecode = (\<lambda>s. Inl ''token contains an invalid number of segments''),
      TimeFunc = 1000\<rparr>"

definition no_user_api :: API where
  "no_user_api = sample_api\<lparr>getUser := (\<lambda>ctx. Inl ''user not found'')\<rparr>"

definition jwt_api :: "Token \<Rightarrow> API" where
  "jwt_api token = sample_api\<lparr>jwtDecode := (\<lambda>s. Inr token)\<rparr>"

definition request_with_body :: "string \<Rightarrow> Request" where
  "request_with_body b =
     \<lparr>Header = Map.empty, Body = Some (Reader b), GetBody = Some (Inr b),
      RequestContext = sample_ctx\<rparr>"

definition request_without_body :: Request where
  "request_without_body =
     \<lparr>Header = Map.empty, Body = Some NoBody, GetBody = None, RequestContext = sample_ctx\<rparr>"

definition request_unreadable_body :: Request where
  "request_unreadable_body =
     \<lparr>Header = Map.empty, Body = Some (Reader ''{}''), GetBody = Some (Inl ''connection reset''),
      RequestContext = sample_ctx\<rparr>"

definition request_with_header :: "string \<Rightarrow> Request" where
  "request_with_header h =
     \<lparr>Header = [''Authorization'' \<mapsto> [h]], Body = None, GetBody = None,
      RequestContext = sample_ctx\<rparr>"

definition sample_claims :: "int option \<Rightarrow> GoTrueClaims" where
  "sample_claims exp =
     \<lparr>Subject = ''user-1'', Audience = ''tenantA'', ExpiresAt = exp, IssuedAt = Some 900\<rparr>"

definition sample_token :: "string \<Rightarrow> string \<Rightarrow> int option \<Rightarrow> Token" where
  "sample_token alg key exp =
     \<lparr>Raw = ''header.payload.signature'', Alg = Some alg, Claims = sample_claims exp,
      SigningString = ''header.payload'', Signature = HMAC alg key ''header.payload'',
      Valid = False\<rparr>"

section \<open>Properties\<close>

subsection \<open>The bearer token\<close>

lemma FindStringSubmatch_match:
  "Bearer_shape h token \<Longrightarrow> bearerRegexp_FindStringSubmatch h = [h, token]"
  by (simp add: Bearer_shape_def bearerRegexp_FindStringSubmatch_def)

lemma FindStringSubmatch_no_match:
  assumes "\<forall>token. \<not> Bearer_shape h token"
  shows "bearerRegexp_FindStringSubmatch h = []"
proof -
  have "\<not> Bearer_shape h (drop 7 h)"
    using assms by blast
  moreover have "take 7 h = ''Bearer '' \<Longrightarrow> h = ''Bearer '' @ drop 7 h"
    by (metis append_take_drop_id)
  ultimately show ?thesis
    by (auto simp add: Bearer_shape_def bearerRegexp_FindStringSubmatch_def Let_def)
qed

text \<open>
  C5. A request whose \<open>Authorization\<close> header has the shape \<^verbatim>\<open>Bearer <token>\<close> yields
  the captured token. A request whose header is absent, or present without that shape
  (another case of the keyword, other spacing, an empty token), fails with an
  Unauthenticated error.
\<close>

theorem extractBearerToken_shape:
  "(Bearer_shape (Header_Get (Header r) ''Authorization'') token \<longrightarrow>
      extractBearerToken r = Inr token)
   \<and> ((\<forall>t. \<not> Bearer_shape (Header_Get (Header r) ''Authorization'') t) \<longrightarrow>
      extractBearerToken r = Inl (unauthorizedError ''This endpoint requires a Bearer token'' []))
   \<and> (Header r ''Authorization'' = None \<longrightarrow>
      extractBearerToken r = Inl (unauthorizedError ''This endpoint requires a Bearer token'' []))
   \<and> Kind (unauthorizedError ''This endpoint requires a Bearer token'' []) = Unauthenticated"
proof (intro conjI impI)
  assume m: "Bearer_shape (Header_Get (Header r) ''Authorization'') token"
  then have "Header_Get (Header r) ''Authorization'' \<noteq> []"
    by (auto simp add: Bearer_shape_def)
  with FindStringSubmatch_match [OF m] show "extractBearerToken r = Inr token"
    by (simp add: extractBearerToken_def Let_def)
next
  assume "\<forall>t. \<not> Bearer_shape (Header_Get (Header r) ''Authorization'') t"
  from FindStringSubmatch_no_match [OF this]
  show "extractBearerToken r = Inl (unauthorizedError ''This endpoint requires a Bearer token'' [])"
    by (simp add: extractBearerToken_def Let_def)
next
  assume "Header r ''Authorization'' = None"
  then show "extractBearerToken r
               = Inl (unauthorizedError ''This endpoint requires a Bearer token'' [])"
    by (simp add: extractBearerToken_def Header_Get_def)
next
  show "Kind (unauthorizedError ''This endpoint requires a Bearer token'' []) = Unauthenticated"
    by (simp add: unauthorizedError_def)
qed

theorem extractBearerToken_shape_witness:
  "extractBearerToken (request_with_header ''Bearer abc.def.ghi'') = Inr ''abc.def.ghi''
   \<and> extractBearerToken (request_with_header ''bearer abc'')
       = Inl (unauthorizedError ''This endpoint requires a Bearer token'' [])
   \<and> extractBearerToken (request_with_header ''Bearer  abc'')
       = Inl (unauthorizedError ''This endpoint requires a Bearer token'' [])
   \<and> extractBearerToken (request_with_header ''Bearer '')
       = Inl (unauthorizedError ''This endpoint requires a Bearer token'' [])
   \<and> extractBearerToken request_without_body
       = Inl (unauthorizedError ''This endpoint requires a Bearer token'' [])"
proof -
  have a: "Bearer_shape (Header_Get (Header (request_with_header ''Bearer abc.def.ghi''))
             ''Authorization'') ''abc.def.ghi''"
    by (simp add: Bearer_shape_def Header_Get_def request_with_header_def isSpace_def)
  have b: "\<forall>t. \<not> Bearer_shape (Header_Get (Header (request_with_header ''bearer abc''))
             ''Authorization'') t"
    by (simp add: Bearer_shape_def Header_Get_def request_with_header_def)
  have c: "\<forall>t. \<not> Bearer_shape (Header_Get (Header (request_with_header ''Bearer  abc''))
             ''Authorization'') t"
    by (auto simp add: Bearer_shape_def Header_Get_def request_with_header_def isSpace_def)
  have d: "\<forall>t. \<not> Bearer_shape (Header_Get (Header (request_with_header ''Bearer ''))
             ''Authorization'') t"
    by (simp add: Bearer_shape_def Header_Get_def request_with_header_def)
  have e: "Header request_without_body ''Authorization'' = None"
    by (simp add: request_without_body_def)
  show ?thesis
    using a b c d e
      extractBearerToken_shape [of "request_with_header ''Bearer abc.def.ghi''" "''abc.def.ghi''"]
      extractBearerToken_shape [of "request_with_header ''bearer abc''"]
      extractBearerToken_shape [of "request_with_header ''Bearer  abc''"]
      extractBearerToken_shape [of "request_with_header ''Bearer ''"]
      extractBearerToken_shape [of request_without_body]
    by blast
qed

lemma extractBearerToken_error_kind:
  "extractBearerToken r = Inl e \<Longrightarrow> Kind e = Unauthenticated"
  by (auto simp add: extractBearerToken_def Let_def unauthorizedError_def split: if_splits)

subsection \<open>The claims verifier\<close>

text \<open>Every error of the parser leaves \<open>parseJWTClaims\<close> as an Unauthenticated error.\<close>

lemma parseJWTClaims_error:
  "ParseWithClaims api \<lparr>ValidMethods = [SigningMethodHS256_Name]\<rparr> bearer
      (\<lambda>token. Inr (Secret (JWT (getConfig (RequestContext r))))) = Inl err
   \<Longrightarrow> fails_with Unauthenticated (parseJWTClaims api bearer r)"
  by (simp add: parseJWTClaims_def fails_with_def unauthorizedError_def Let_def)

text \<open>
  The verifier is not empty: a credential that declares HS256, is signed with the
  configured secret, has not expired and carries its issue time is accepted, and the
  context returned holds the token.
\<close>

lemma parseJWTClaims_accepts:
  assumes "jwtDecode api bearer = Inr token" and "Alg token = Some ''HS256''"
    and "Signature token
           = HMAC ''HS256'' (Secret (JWT (getConfig (RequestContext r)))) (SigningString token)"
    and "ExpiresAt (Claims token) = Some exp" and "TimeFunc api \<le> exp"
    and "IssuedAt (Claims token) = Some iat"
  shows "parseJWTClaims api bearer r
           = Inr (withToken (RequestContext r) (token\<lparr>Valid := True\<rparr>))"
  using assms
  by (simp add: parseJWTClaims_def ParseWithClaims_def SigningMethodHS256_Name_def Let_def)

text \<open>Authentication as a whole fails with no other kind of error.\<close>

lemma parseJWTClaims_error_kind:
  "parseJWTClaims api bearer r = Inl e \<Longrightarrow> Kind e = Unauthenticated"
  by (auto simp add: parseJWTClaims_def Let_def unauthorizedError_def split: sum.splits)

lemma requireAuthentication_error_kind:
  "requireAuthentication api r = Inl e \<Longrightarrow> Kind e = Unauthenticated"
  by (auto simp add: requireAuthentication_def split: sum.splits
      dest: extractBearerToken_error_kind parseJWTClaims_error_kind)

text \<open>
  C2. A credential whose header declares an algorithm other than HS256 is rejected with
  an Unauthenticated error. Nothing is asked of the signature: it may well be the right
  one for the declared algorithm and the configured secret.
\<close>

theorem parseJWTClaims_rejects_other_algorithm:
  assumes "jwtDecode api bearer = Inr token" and "Alg token = Some alg" and "alg \<noteq> ''HS256''"
  shows "fails_with Unauthenticated (parseJWTClaims api bearer r)"
  using assms
  by (intro parseJWTClaims_error [of _ _ _ "''signing method is invalid''"])
     (simp add: ParseWithClaims_def SigningMethodHS256_Name_def)

theorem parseJWTClaims_rejects_other_algorithm_witness:
  "fails_with Unauthenticated
     (parseJWTClaims (jwt_api (sample_token ''HS512'' ''s3cret'' (Some 2000))) ''a.b.c''
        (request_with_header ''Bearer a.b.c''))
   \<and> fails_with Unauthenticated
     (parseJWTClaims (jwt_api (sample_token ''none'' ''s3cret'' (Some 2000))) ''a.b.c''
        (request_with_header ''Bearer a.b.c''))"
  using parseJWTClaims_rejects_other_algorithm
      [of "jwt_api (sample_token ''HS512'' ''s3cret'' (Some 2000))" "''a.b.c''"
          "sample_token ''HS512'' ''s3cret'' (Some 2000)" "''HS512''"
          "request_with_header ''Bearer a.b.c''"]
    parseJWTClaims_rejects_other_algorithm
      [of "jwt_api (sample_token ''none'' ''s3cret'' (Some 2000))" "''a.b.c''"
          "sample_token ''none'' ''s3cret'' (Some 2000)" "''none''"
          "request_with_header ''Bearer a.b.c''"]
  by (simp add: jwt_api_def sample_token_def)

text \<open>
  C3. A credential signed with a secret other than the configured one
  (\<^verbatim>\<open>config.JWT.Secret\<close> of the request's context) is rejected with an Unauthenticated
  error.
\<close>

theorem parseJWTClaims_rejects_other_secret:
  assumes "jwtDecode api bearer = Inr token"
    and "Signature token = HMAC alg key text"
    and "key \<noteq> Secret (JWT (getConfig (RequestContext r)))"
  shows "fails_with Unauthenticated (parseJWTClaims api bearer r)"
proof -
  have "\<exists>err. ParseWithClaims api \<lparr>ValidMethods = [SigningMethodHS256_Name]\<rparr> bearer
      (\<lambda>token. Inr (Secret (JWT (getConfig (RequestContext r))))) = Inl err"
    using assms by (auto simp add: ParseWithClaims_def split: option.splits)
  then show ?thesis
    using parseJWTClaims_error by blast
qed

theorem parseJWTClaims_rejects_other_secret_witness:
  "fails_with Unauthenticated
     (parseJWTClaims (jwt_api (sample_token ''HS256'' ''guess'' (Some 2000))) ''a.b.c''
        (request_with_header ''Bearer a.b.c''))"
  using parseJWTClaims_rejects_other_secret
      [of "jwt_api (sample_token ''HS256'' ''guess'' (Some 2000))" "''a.b.c''"
          "sample_token ''HS256'' ''guess'' (Some 2000)" "''HS256''" "''guess''"
          "''header.payload''" "request_with_header ''Bearer a.b.c''"]
  by (simp add: jwt_api_def sample_token_def request_with_header_def sample_ctx_def getConfig_def)

text \<open>
  C4. A credential whose \<open>expiresAt\<close> lies before the time of verification is rejected
  with an Unauthenticated error, also when it declares HS256 and is signed with the
  configured secret (as the credential of the witness is).
\<close>

theorem parseJWTClaims_rejects_expired:
  assumes "jwtDecode api bearer = Inr token"
    and "ExpiresAt (Claims token) = Some exp" and "exp < TimeFunc api"
  shows "fails_with Unauthenticated (parseJWTClaims api bearer r)"
proof -
  have "\<exists>err. ParseWithClaims api \<lparr>ValidMethods = [SigningMethodHS256_Name]\<rparr> bearer
      (\<lambda>token. Inr (Secret (JWT (getConfig (RequestContext r))))) = Inl err"
    using assms by (auto simp add: ParseWithClaims_def split: option.splits)
  then show ?thesis
    using parseJWTClaims_error by blast
qed

theorem parseJWTClaims_rejects_expired_witness:
  "Signature (sample_token ''HS256'' ''s3cret'' (Some 999))
     = HMAC ''HS256'' (Secret (JWT (getConfig sample_ctx)))
         (SigningString (sample_token ''HS256'' ''s3cret'' (Some 999)))
   \<and> fails_with Unauthenticated
     (parseJWTClaims (jwt_api (sample_token ''HS256'' ''s3cret'' (Some 999))) ''a.b.c''
        (request_with_header ''Bearer a.b.c''))"
  using parseJWTClaims_rejects_expired
      [of "jwt_api (sample_token ''HS256'' ''s3cret'' (Some 999))" "''a.b.c''"
          "sample_token ''HS256'' ''s3cret'' (Some 999)" 999
          "request_with_header ''Bearer a.b.c''"]
  by (simp add: jwt_api_def sample_token_def sample_claims_def sample_api_def sample_ctx_def
      getConfig_def)

subsection \<open>The admin authorizer\<close>

text \<open>
  With the user found and a body present, a nil \<open>GetBody\<close> makes the call panic: nothing
  is returned.
\<close>

lemma requireAdmin_GetBody_nil:
  assumes "getUser api ctx = Inr adminUser"
    and "Body r \<noteq> None" and "Body r \<noteq> Some NoBody" and "GetBody r = None"
  shows "requireAdmin api ctx r = None"
  using assms by (simp add: requireAdmin_def)

text \<open>
  C9. When the lookup of the administrative user fails, \<open>requireAdmin\<close> fails with an
  Unauthenticated error, whatever the body of the request is: the lookup comes first, so
  neither a malformed body nor a body that cannot be obtained is looked at.
\<close>

theorem requireAdmin_lookup_failure:
  assumes "getUser api ctx = Inl err"
  shows "requireAdmin api ctx r = Some (Inl (unauthorizedError ''Invalid admin user'' []))
         \<and> Kind (unauthorizedError ''Invalid admin user'' []) = Unauthenticated"
  using assms by (simp add: requireAdmin_def unauthorizedError_def)

theorem requireAdmin_lookup_failure_witness:
  "requireAdmin no_user_api sample_ctx (request_with_body ''{'')
     = Some (Inl (unauthorizedError ''Invalid admin user'' []))
   \<and> requireAdmin no_user_api sample_ctx request_unreadable_body
     = Some (Inl (unauthorizedError ''Invalid admin user'' []))"
  using requireAdmin_lookup_failure [of no_user_api sample_ctx "''user not found''"]
  by (simp add: no_user_api_def sample_api_def)

text \<open>
  C1. With a body present whose stream decodes to parameters, the audience handed to the
  membership check is the override \<^verbatim>\<open>params.User.Aud\<close> when that is non-empty (so
  \<^verbatim>\<open>tenantB\<close> for the body of the witness, not the default \<^verbatim>\<open>tenantA\<close>), and the
  default of \<open>requestAud\<close> when the override is empty or absent.
\<close>

theorem requireAdmin_override_audience:
  assumes "Body r \<noteq> None" and "Body r \<noteq> Some NoBody"
    and "GetBody r = Some (Inr bod)" and "jsonDecode api bod = Inr params"
  shows "(Aud (User params) \<noteq> [] \<longrightarrow>
            requireAdmin api ctx r = admin_check api ctx (Aud (User params)))
       \<and> (Aud (User params) = [] \<longrightarrow>
            requireAdmin api ctx r = admin_check api ctx (requestAud api ctx r))"
  using assms by (simp add: requireAdmin_def admin_check_def split: sum.splits)

theorem requireAdmin_override_audience_witness:
  "requestAud sample_api sample_ctx (request_with_body override_body) = ''tenantA''
   \<and> requireAdmin sample_api sample_ctx (request_with_body override_body)
       = admin_check sample_api sample_ctx ''tenantB''
   \<and> requireAdmin sample_api sample_ctx (request_with_body override_body) = Some (Inr sample_ctx)
   \<and> requireAdmin sample_api sample_ctx (request_with_body ''{}'')
       = admin_check sample_api sample_ctx ''tenantA''
   \<and> requireAdmin sample_api sample_ctx (request_with_body ''{}'')
       = Some (Inl (unauthorizedError ''User not allowed'' []))"
proof -
  have a: "requireAdmin sample_api sample_ctx (request_with_body override_body)
           = admin_check sample_api sample_ctx ''tenantB''"
    using requireAdmin_override_audience
      [of "request_with_body override_body" override_body sample_api
          "\<lparr>User = \<lparr>Aud = ''tenantB''\<rparr>\<rparr>" sample_ctx]
    by (simp add: request_with_body_def sample_api_def)
  have b: "requireAdmin sample_api sample_ctx (request_with_body ''{}'')
           = admin_check sample_api sample_ctx ''tenantA''"
    using requireAdmin_override_audience
      [of "request_with_body ''{}''" "''{}''" sample_api
          "\<lparr>User = \<lparr>Aud = []\<rparr>\<rparr>" sample_ctx]
    by (simp add: request_with_body_def sample_api_def override_body_def)
  show ?thesis
    unfolding a b by (simp add: admin_check_def sample_api_def)
qed

text \<open>
  C7. With an empty request body (a nil body or \<^verbatim>\<open>http.NoBody\<close>) no override is
  applied: the audience handed to the membership check is the default of \<open>requestAud\<close>.
\<close>

theorem requireAdmin_empty_body:
  assumes "Body r = None \<or> Body r = Some NoBody"
  shows "requireAdmin api ctx r = admin_check api ctx (requestAud api ctx r)"
  using assms by (auto simp add: requireAdmin_def admin_check_def split: sum.splits)

theorem requireAdmin_empty_body_witness:
  "requireAdmin sample_api sample_ctx request_without_body
     = admin_check sample_api sample_ctx ''tenantA''
   \<and> requireAdmin sample_api sample_ctx request_without_body
     = Some (Inl (unauthorizedError ''User not allowed'' []))"
  using requireAdmin_empty_body [of request_without_body sample_api sample_ctx]
  by (simp add: request_without_body_def admin_check_def sample_api_def)

text \<open>
  C8. When the administrative user is found, the audience is resolved (from an empty body,
  or from a body that decodes) and the membership check returns false for that audience,
  \<open>requireAdmin\<close> fails with an Unauthenticated error, the kind of an authentication
  failure.
\<close>

theorem requireAdmin_not_admin:
  assumes "getUser api ctx = Inr adminUser"
    and "(Body r = None \<or> Body r = Some NoBody) \<and> aud = requestAud api ctx r
         \<or> Body r \<noteq> None \<and> Body r \<noteq> Some NoBody \<and> GetBody r = Some (Inr bod)
           \<and> jsonDecode api bod = Inr params
           \<and> aud = (if Aud (User params) \<noteq> [] then Aud (User params) else requestAud api ctx r)"
    and "\<not> isAdmin api ctx adminUser aud"
  shows "requireAdmin api ctx r = Some (Inl (unauthorizedError ''User not allowed'' []))
         \<and> Kind (unauthorizedError ''User not allowed'' []) = Unauthenticated"
  using assms by (auto simp add: requireAdmin_def unauthorizedError_def)

theorem requireAdmin_not_admin_witness:
  "requireAdmin sample_api sample_ctx (request_with_body ''{}'')
     = Some (Inl (unauthorizedError ''User not allowed'' []))
   \<and> Kind (unauthorizedError ''User not allowed'' []) = Unauthenticated"
  using requireAdmin_not_admin
    [of sample_api sample_ctx "\<lparr>ID = ''admin''\<rparr>" "request_with_body ''{}''" "''tenantA''"
        "''{}''" "\<lparr>User = \<lparr>Aud = []\<rparr>\<rparr>"]
  by (simp add: request_with_body_def sample_api_def override_body_def)

text \<open>
  C6, as stated, fails: a request whose body is present and does not decode, made when the
  lookup of the administrative user fails, is answered with an Unauthenticated error, not
  with BadRequest.
\<close>

theorem requireAdmin_undecodable_body_counterexample:
  "Body (request_with_body ''{'') = Some (Reader ''{'')
   \<and> GetBody (request_with_body ''{'') = Some (Inr ''{'')
   \<and> jsonDecode no_user_api ''{'' = Inl ''invalid character''
   \<and> requireAdmin no_user_api sample_ctx (request_with_body ''{'')
       = Some (Inl (unauthorizedError ''Invalid admin user'' []))
   \<and> Kind (unauthorizedError ''Invalid admin user'' []) = Unauthenticated"
  by (simp add: requireAdmin_def request_with_body_def no_user_api_def sample_api_def
      override_body_def unauthorizedError_def)

text \<open>
  C6, amended. When the administrative user is found and the body is present but its
  stream does not decode, \<open>requireAdmin\<close> fails with a BadRequest error: the malformed
  body is not taken for a missing override.
\<close>

theorem requireAdmin_undecodable_body:
  assumes "getUser api ctx = Inr adminUser"
    and "Body r \<noteq> None" and "Body r \<noteq> Some NoBody"
    and "GetBody r = Some (Inr bod)" and "jsonDecode api bod = Inl err"
  shows "requireAdmin api ctx r
           = Some (Inl (badRequestError ''Could not decode admin user params: %v'' [err]))
         \<and> Kind (badRequestError ''Could not decode admin user params: %v'' [err]) = BadRequest"
  using assms by (simp add: requireAdmin_def badRequestError_def)

theorem requireAdmin_undecodable_body_witness:
  "requireAdmin sample_api sample_ctx (request_with_body ''{'')
     = Some (Inl (badRequestError ''Could not decode admin user params: %v''
                    [''invalid character'']))"
  using requireAdmin_undecodable_body
    [of sample_api sample_ctx "\<lparr>ID = ''admin''\<rparr>" "request_with_body ''{''" "''{''"
        "''invalid character''"]
  by (simp add: request_with_body_def sample_api_def override_body_def)

text \<open>
  C10, as stated, fails: a request whose body is present and whose \<open>GetBody\<close> fails, made
  when the lookup of the administrative user fails, is answered with an Unauthenticated
  error, not with InternalError.
\<close>

theorem requireAdmin_GetBody_failure_counterexample:
  "Body request_unreadable_body = Some (Reader ''{}'')
   \<and> GetBody request_unreadable_body = Some (Inl ''connection reset'')
   \<and> requireAdmin no_user_api sample_ctx request_unreadable_body
       = Some (Inl (unauthorizedError ''Invalid admin user'' []))
   \<and> Kind (unauthorizedError ''Invalid admin user'' []) = Unauthenticated"
  by (simp add: requireAdmin_def request_unreadable_body_def no_user_api_def sample_api_def
      unauthorizedError_def)

text \<open>
  C10, amended. When the administrative user is found and the body is present but
  \<open>GetBody\<close> returns an error, \<open>requireAdmin\<close> fails with an InternalError that keeps
  that error as its internal cause; no context is returned.
\<close>

theorem requireAdmin_GetBody_failure:
  assumes "getUser api ctx = Inr adminUser"
    and "Body r \<noteq> None" and "Body r \<noteq> Some NoBody"
    and "GetBody r = Some (Inl err)"
  shows "requireAdmin api ctx r
           = Some (Inl (WithInternalError (internalServerError ''Error getting body'' []) err))
         \<and> Kind (WithInternalError (internalServerError ''Error getting body'' []) err)
             = InternalError"
  using assms by (simp add: requireAdmin_def internalServerError_def WithInternalError_def)

theorem requireAdmin_GetBody_failure_witness:
  "requireAdmin sample_api sample_ctx request_unreadable_body
     = Some (Inl (WithInternalError (internalServerError ''Error getting body'' [])
                    ''connection reset''))"
  using requireAdmin_GetBody_failure
    [of sample_api sample_ctx "\<lparr>ID = ''admin''\<rparr>" request_unreadable_body "''connection reset''"]
  by (simp add: request_unreadable_body_def sample_api_def)

end
